theory Spec2Isabelle
  imports Main "HOL-Library.Sublist"
begin

section \<open>The Go library as internal/build/util.go uses it\<close>

text \<open>
  The file \<^verbatim>\<open>internal/build/util.go\<close> is a set of wrappers around the Go standard
  library: it runs child processes, reads and writes files and filters lists of strings.
  A Go string is a sequence of bytes, here a \<^typ>\<open>string\<close> (a list of 8-bit
  \<^typ>\<open>char\<close>). The library functions are modelled after their documentation, on a
  Unix platform (path separator \<^verbatim>\<open>/\<close>), which is the platform of the client path
  compiled into \<^verbatim>\<open>RunGit\<close>.
\<close>

subsection \<open>Package strings\<close>

text \<open>\<^verbatim>\<open>strings.HasPrefix(s, prefix)\<close>.\<close>

fun HasPrefix :: "string \<Rightarrow> string \<Rightarrow> bool" where
  "HasPrefix s [] = True"
| "HasPrefix [] (p # ps) = False"
| "HasPrefix (c # cs) (p # ps) = (c = p \<and> HasPrefix cs ps)"

text \<open>\<^verbatim>\<open>strings.Contains(s, substr)\<close>: \<^verbatim>\<open>substr\<close> occurs in \<^verbatim>\<open>s\<close> at some offset.\<close>

fun Contains :: "string \<Rightarrow> string \<Rightarrow> bool" where
  "Contains [] substr = (substr = [])"
| "Contains (c # cs) substr = (HasPrefix (c # cs) substr \<or> Contains cs substr)"

text \<open>\<^verbatim>\<open>strings.Join(a, sep)\<close>.\<close>

fun Join :: "string list \<Rightarrow> string \<Rightarrow> string" where
  "Join [] sep = []"
| "Join [a] sep = a"
| "Join (a # b # bs) sep = a @ sep @ Join (b # bs) sep"

text \<open>
  \<^verbatim>\<open>strings.Split(s, sep)\<close> for a separator of one byte, the only form the file calls
  (\<^verbatim>\<open>strings.Split(string(out), "\n")\<close>). The scan keeps the piece read so far;
  every separator closes a piece, and the end of the input closes the last one, so
  that \<open>n\<close> separators give \<open>n + 1\<close> pieces and the empty input gives one empty piece.
\<close>

fun splitFrom :: "char \<Rightarrow> string \<Rightarrow> string \<Rightarrow> string list" where
  "splitFrom sep piece [] = [piece]"
| "splitFrom sep piece (c # cs) =
     (if c = sep then piece # splitFrom sep [] cs else splitFrom sep (piece @ [c]) cs)"

definition Split :: "string \<Rightarrow> char \<Rightarrow> string list" where
  "Split s sep = splitFrom sep [] s"

text \<open>
  \<^verbatim>\<open>strings.TrimSpace\<close> and \<^verbatim>\<open>bytes.TrimSpace\<close> remove "all leading and trailing
  white space, as defined by Unicode": the characters that \<^verbatim>\<open>unicode.IsSpace\<close> accepts,
  decoded from UTF-8. These are U+0009 to U+000D, U+0020, U+0085, U+00A0, U+1680,
  U+2000 to U+200A, U+2028, U+2029, U+202F, U+205F and U+3000. \<open>whiteSpace\<close> lists
  their UTF-8 encodings. A byte sequence that is not the complete encoding of one of
  them decodes to another character or to the error rune, neither of which is white
  space, so trimming stops there.
\<close>

definition whiteSpace :: "string list" where
  "whiteSpace =
    [[CHR 0x09], [CHR 0x0A], [CHR 0x0B], [CHR 0x0C], [CHR 0x0D], [CHR 0x20],
     [CHR 0xC2, CHR 0x85], [CHR 0xC2, CHR 0xA0],
     [CHR 0xE1, CHR 0x9A, CHR 0x80],
     [CHR 0xE2, CHR 0x80, CHR 0x80], [CHR 0xE2, CHR 0x80, CHR 0x81],
     [CHR 0xE2, CHR 0x80, CHR 0x82], [CHR 0xE2, CHR 0x80, CHR 0x83],
     [CHR 0xE2, CHR 0x80, CHR 0x84], [CHR 0xE2, CHR 0x80, CHR 0x85],
     [CHR 0xE2, CHR 0x80, CHR 0x86], [CHR 0xE2, CHR 0x80, CHR 0x87],
     [CHR 0xE2, CHR 0x80, CHR 0x88], [CHR 0xE2, CHR 0x80, CHR 0x89],
     [CHR 0xE2, CHR 0x80, CHR 0x8A],
     [CHR 0xE2, CHR 0x80, CHR 0xA8], [CHR 0xE2, CHR 0x80, CHR 0xA9],
     [CHR 0xE2, CHR 0x80, CHR 0xAF],
     [CHR 0xE2, CHR 0x81, CHR 0x9F],
     [CHR 0xE3, CHR 0x80, CHR 0x80]]"

text \<open>
  \<open>trimFront seqs s\<close> removes from the front of \<open>s\<close>, one after the other, every
  sequence of \<open>seqs\<close> that \<open>s\<close> starts with, and stops at the first position where
  none matches: the loop of \<^verbatim>\<open>TrimLeftFunc\<close>, which decodes one character at a time
  and stops at the first that is not white space.
\<close>

definition width :: "string list \<Rightarrow> string \<Rightarrow> nat" where
  "width seqs s = (case find (HasPrefix s) seqs of None \<Rightarrow> 0 | Some p \<Rightarrow> length p)"

fun trimFront :: "string list \<Rightarrow> string \<Rightarrow> string" where
  "trimFront seqs [] = []"
| "trimFront seqs (c # cs) =
     (if width seqs (c # cs) = 0 then c # cs
      else trimFront seqs (drop (width seqs (c # cs) - 1) cs))"

definition TrimLeftSpace :: "string \<Rightarrow> string" where
  "TrimLeftSpace s = trimFront whiteSpace s"

text \<open>\<^verbatim>\<open>TrimRightFunc\<close> is the same scan from the end of the string backwards.\<close>

definition TrimRightSpace :: "string \<Rightarrow> string" where
  "TrimRightSpace s = rev (trimFront (map rev whiteSpace) (rev s))"

definition TrimSpace :: "string \<Rightarrow> string" where
  "TrimSpace s = TrimRightSpace (TrimLeftSpace s)"

subsection \<open>Errors\<close>

text \<open>
  The error values the file can meet. \<open>ErrNotFound\<close> is the variable
  \<^verbatim>\<open>exec.ErrNotFound\<close>; \<open>ExecError name err\<close> is \<^verbatim>\<open>&exec.Error{Name, Err}\<close>, which
  \<^verbatim>\<open>exec.LookPath\<close> returns; \<open>PathError op path err\<close> is \<^verbatim>\<open>&os.PathError{Op, Path, Err}\<close>;
  \<open>ExitError n\<close> is the \<^verbatim>\<open>*exec.ExitError\<close> of a child that ended with status \<open>n\<close>.
  Go's \<^verbatim>\<open>==\<close> on two error values is equality of these terms: an \<open>ExecError\<close> that
  wraps \<open>ErrNotFound\<close> is not \<open>ErrNotFound\<close>.
\<close>

datatype errno = ENOENT | EEXIST | ENOTDIR | EACCES | EIO | ENOSPC

datatype error =
    ErrNotFound
  | ErrInvalid
  | Errno errno
  | ExecError string error
  | PathError string string error
  | ExitError nat
  | TemplateError string

subsection \<open>The machine and the process\<close>

text \<open>
  The regular files of the machine, by path; directories, permission bits and links
  are not part of the state.
\<close>

type_synonym fs = "string \<rightharpoonup> string"

text \<open>An open \<^verbatim>\<open>*os.File\<close>: a number that tells it from every other open file, and its path.\<close>

type_synonym File = "nat \<times> string"

datatype oflag = O_RDONLY | O_WRONLY | O_CREATE | O_EXCL | O_TRUNC

datatype sysop = Mkdir_op string | Open_op string | Close_op string

datatype stream = ToStdout | ToStderr

text \<open>What a child process that was started does before it exits.\<close>

record process =
  writes :: "(stream \<times> string) list"
  status :: nat
  files_after :: fs

text \<open>
  The environment holds what the program cannot decide: for which operations the
  operating system returns an error for a reason outside the state (permissions, a
  missing directory, a full disk), the search for executables, what a child process
  does, and the lexical path functions \<^verbatim>\<open>filepath.Dir\<close> and \<^verbatim>\<open>filepath.Join\<close> (both end
  in \<^verbatim>\<open>filepath.Clean\<close>; no property below depends on their values).
  \<^item> \<open>denied op\<close>: the error of the operating system for \<open>op\<close>, if any;
  \<^item> \<open>io_limit path\<close>: \<open>Some n\<close> when a transfer from or to the file fails after \<open>n\<close> bytes;
  \<^item> \<open>findExecutable path\<close>: \<open>None\<close> when \<open>path\<close> is an executable file;
  \<^item> \<open>searchPATH name\<close>: the first executable called \<open>name\<close> in the directories of \<^verbatim>\<open>$PATH\<close>;
  \<^item> \<open>spawn path argv files\<close>: \<^verbatim>\<open>fork/exec\<close> of \<open>path\<close>, an error when the program cannot
    be started, otherwise the run of the child to its exit.
\<close>

record env =
  denied :: "sysop \<Rightarrow> error option"
  io_limit :: "string \<Rightarrow> nat option"
  findExecutable :: "string \<Rightarrow> error option"
  searchPATH :: "string \<Rightarrow> string option"
  spawn :: "string \<Rightarrow> string list \<Rightarrow> fs \<Rightarrow> error + process"
  GOROOT :: string
  filepath_Dir :: "string \<Rightarrow> string"
  filepath_Join :: "string list \<Rightarrow> string"

text \<open>One operand of a \<^verbatim>\<open>log\<close> call: a string or an error value (printed with its \<^verbatim>\<open>Error()\<close> text).\<close>

datatype part = Str string | Err error

text \<open>
  The state of the host process and of the machine: the files, the files this process
  holds open, what it wrote to its standard output and standard error, the messages it
  logged, the argument vectors of the children it started, and the two package
  variables \<^verbatim>\<open>warnedAboutGit\<close> and \<^verbatim>\<open>*DryRunFlag\<close>.
\<close>

record world =
  files :: fs
  handles :: "File list"
  stdout :: string
  stderr :: string
  logged :: "part list list"
  started :: "string list list"
  warnedAboutGit :: bool
  DryRunFlag :: bool

text \<open>
  How a call ends. \<open>Returned v w\<close>: it returns \<open>v\<close>. \<open>Fatal w\<close>: \<^verbatim>\<open>log.Fatal\<close> printed its
  message and called \<^verbatim>\<open>os.Exit(1)\<close>; "the program terminates immediately; deferred
  functions are not run", so \<open>w\<close> is the state at that call. \<open>Panic e w\<close>: the call
  panicked with \<open>e\<close> (\<^verbatim>\<open>template.Must\<close>).
\<close>

datatype 'a outcome = Returned 'a world | Fatal world | Panic error world

fun final :: "'a outcome \<Rightarrow> world" where
  "final (Returned v w) = w"
| "final (Fatal w) = w"
| "final (Panic e w) = w"

fun returns :: "'a outcome \<Rightarrow> bool" where
  "returns (Returned v w) = True"
| "returns (Fatal w) = False"
| "returns (Panic e w) = False"

subsection \<open>Packages fmt and log\<close>


definition log_Print :: "part list \<Rightarrow> world \<Rightarrow> world" where
  "log_Print v w = w\<lparr>logged := logged w @ [v]\<rparr>"

definition log_Fatal :: "part list \<Rightarrow> world \<Rightarrow> 'a outcome" where
  "log_Fatal v w = Fatal (log_Print v w)"

subsection \<open>Packages os, io and io/ioutil\<close>

fun fresh :: "File list \<Rightarrow> nat" where
  "fresh [] = 0"
| "fresh (f # fs) = max (Suc (fst f)) (fresh fs)"

text \<open>
  \<^verbatim>\<open>os.MkdirAll(path, perm)\<close> creates directories only; it fails when \<open>path\<close> is a
  regular file or when the operating system refuses.
\<close>

definition MkdirAll :: "env \<Rightarrow> string \<Rightarrow> nat \<Rightarrow> world \<Rightarrow> error option" where
  "MkdirAll env path perm w =
     (case denied env (Mkdir_op path) of
        Some e \<Rightarrow> Some (PathError ''mkdir'' path e)
      | None \<Rightarrow>
          (if files w path \<noteq> None then Some (PathError ''mkdir'' path (Errno ENOTDIR))
           else None))"

text \<open>
  \<^verbatim>\<open>os.OpenFile(name, flag, perm)\<close>. With \<^verbatim>\<open>O_CREATE|O_EXCL\<close> an existing file is an
  error; without \<^verbatim>\<open>O_CREATE\<close> a missing file is an error; a file that is created or
  opened with \<^verbatim>\<open>O_TRUNC\<close> is empty afterwards.
\<close>

definition OpenFile :: "env \<Rightarrow> string \<Rightarrow> oflag list \<Rightarrow> nat \<Rightarrow> world \<Rightarrow> error + (File \<times> world)" where
  "OpenFile env name flag perm w =
     (case denied env (Open_op name) of
        Some e \<Rightarrow> Inl (PathError ''open'' name e)
      | None \<Rightarrow>
          (if files w name \<noteq> None \<and> O_CREATE \<in> set flag \<and> O_EXCL \<in> set flag
             then Inl (PathError ''open'' name (Errno EEXIST))
           else if files w name = None \<and> O_CREATE \<notin> set flag
             then Inl (PathError ''open'' name (Errno ENOENT))
           else
             (let f = (fresh (handles w), name);
                  fs' = (if files w name = None \<or> O_TRUNC \<in> set flag
                         then (files w)(name \<mapsto> []) else files w)
              in Inr (f, w\<lparr>files := fs', handles := f # handles w\<rparr>))))"

text \<open>\<^verbatim>\<open>os.Open(name)\<close> is \<^verbatim>\<open>OpenFile(name, O_RDONLY, 0)\<close>.\<close>

definition Open :: "env \<Rightarrow> string \<Rightarrow> world \<Rightarrow> error + (File \<times> world)" where
  "Open env name w = OpenFile env name [O_RDONLY] 0 w"

text \<open>\<^verbatim>\<open>f.Close()\<close> releases the handle, also when it reports an error.\<close>

definition Close :: "env \<Rightarrow> File \<Rightarrow> world \<Rightarrow> error option \<times> world" where
  "Close env f w =
     (if f \<in> set (handles w)
      then (map_option (PathError ''close'' (snd f)) (denied env (Close_op (snd f))),
            w\<lparr>handles := remove1 f (handles w)\<rparr>)
      else (Some ErrInvalid, w))"

text \<open>The bytes of \<open>b\<close> that a transfer on \<open>path\<close> moves before an input/output error, if one occurs.\<close>

definition transferred :: "env \<Rightarrow> string \<Rightarrow> string \<Rightarrow> string" where
  "transferred env path b = (case io_limit env path of None \<Rightarrow> b | Some n \<Rightarrow> take n b)"

definition contents :: "world \<Rightarrow> string \<Rightarrow> string" where
  "contents w path = (case files w path of None \<Rightarrow> [] | Some b \<Rightarrow> b)"

text \<open>
  \<^verbatim>\<open>f.Write(b)\<close> on a file opened for writing by this program: every such file is
  created new or truncated, so what is written follows what was written before.
\<close>

definition Write :: "env \<Rightarrow> File \<Rightarrow> string \<Rightarrow> world \<Rightarrow> error option \<times> world" where
  "Write env f b w =
     (if f \<in> set (handles w)
      then
        (let done = transferred env (snd f) b
         in (if length done < length b then Some (PathError ''write'' (snd f) (Errno ENOSPC)) else None,
             w\<lparr>files := (files w)(snd f \<mapsto> contents w (snd f) @ done)\<rparr>))
      else (Some ErrInvalid, w))"

text \<open>\<^verbatim>\<open>io.Copy(dst, src)\<close>: reads \<open>src\<close> to its end and writes what it reads to \<open>dst\<close>.\<close>

definition Copy :: "env \<Rightarrow> File \<Rightarrow> File \<Rightarrow> world \<Rightarrow> error option \<times> world" where
  "Copy env dst src w =
     (if src \<in> set (handles w)
      then
        (let b = contents w (snd src);
             got = transferred env (snd src) b
         in (case Write env dst got w of
               (Some e, w') \<Rightarrow> (Some e, w')
             | (None, w') \<Rightarrow>
                 (if length got < length b then Some (PathError ''read'' (snd src) (Errno EIO)) else None,
                  w')))
      else (Some ErrInvalid, w))"

text \<open>\<^verbatim>\<open>ioutil.ReadFile(filename)\<close>: opens, reads to the end and closes.\<close>

definition ReadFile :: "env \<Rightarrow> string \<Rightarrow> world \<Rightarrow> error + string" where
  "ReadFile env filename w =
     (case denied env (Open_op filename) of
        Some e \<Rightarrow> Inl (PathError ''open'' filename e)
      | None \<Rightarrow>
          (case files w filename of
             None \<Rightarrow> Inl (PathError ''open'' filename (Errno ENOENT))
           | Some b \<Rightarrow>
               (if length (transferred env filename b) < length b
                then Inl (PathError ''read'' filename (Errno EIO))
                else Inr b)))"

subsection \<open>Packages path/filepath and os/exec\<close>

text \<open>
  \<^verbatim>\<open>filepath.Base(path)\<close>: the last element of the path, after trailing slashes are
  removed; \<^verbatim>\<open>.\<close> for the empty path and \<^verbatim>\<open>/\<close> for a path of slashes only.
\<close>

definition Base :: "string \<Rightarrow> string" where
  "Base path =
     (if path = [] then ''.''
      else
        (let p = rev (dropWhile (\<lambda>c. c = CHR ''/'') (rev path));
             q = rev (takeWhile (\<lambda>c. c \<noteq> CHR ''/'') (rev p))
         in if q = [] then ''/'' else q))"

text \<open>
  \<^verbatim>\<open>exec.LookPath(file)\<close>: a name with a slash is tried as it is, another one is
  searched for in \<^verbatim>\<open>$PATH\<close>. Every failure is an \<^verbatim>\<open>*exec.Error\<close>; when the search finds
  nothing, its \<^verbatim>\<open>Err\<close> field is \<^verbatim>\<open>ErrNotFound\<close>.
\<close>

definition LookPath :: "env \<Rightarrow> string \<Rightarrow> error + string" where
  "LookPath env file =
     (if CHR ''/'' \<in> set file
      then (case findExecutable env file of
              None \<Rightarrow> Inr file
            | Some e \<Rightarrow> Inl (ExecError file e))
      else (case searchPATH env file of
              Some p \<Rightarrow> Inr p
            | None \<Rightarrow> Inl (ExecError file ErrNotFound)))"

record Cmd =
  Path :: string
  Args :: "string list"
  lookPathErr :: "error option"

text \<open>
  \<^verbatim>\<open>exec.Command(name, arg...)\<close>: \<^verbatim>\<open>LookPath\<close> is consulted only "if name contains no
  path separators", that is when \<^verbatim>\<open>filepath.Base(name) == name\<close>, and its error is kept
  for \<^verbatim>\<open>Run\<close> to return. (From Go 1.19 on, a name that \<^verbatim>\<open>$PATH\<close> resolves relative to
  the current directory keeps an error as well; that case is left out, and it is not
  \<^verbatim>\<open>exec.ErrNotFound\<close> either.)
\<close>

definition Command :: "env \<Rightarrow> string \<Rightarrow> string list \<Rightarrow> Cmd" where
  "Command env name arg =
     (let cmd = \<lparr>Path = name, Args = name # arg, lookPathErr = None\<rparr>
      in if Base name = name
         then (case LookPath env name of
                 Inl err \<Rightarrow> cmd\<lparr>lookPathErr := Some err\<rparr>
               | Inr lp \<Rightarrow> cmd\<lparr>Path := lp\<rparr>)
         else cmd)"

text \<open>
  \<^verbatim>\<open>cmd.Run()\<close>: starts the child and waits for it. It returns the error kept by
  \<^verbatim>\<open>Command\<close>, or the \<^verbatim>\<open>*os.PathError\<close> of a failed \<^verbatim>\<open>fork/exec\<close>, or the
  \<^verbatim>\<open>*exec.ExitError\<close> of a child whose status is not zero. The second component is what
  the child wrote, in the order it wrote it; the caller decides where each stream goes.
\<close>

definition Run :: "env \<Rightarrow> Cmd \<Rightarrow> world \<Rightarrow> error option \<times> (stream \<times> string) list \<times> world" where
  "Run env cmd w =
     (case lookPathErr cmd of
        Some e \<Rightarrow> (Some e, [], w)
      | None \<Rightarrow>
          (let argv = (if Args cmd = [] then [Path cmd] else Args cmd)
           in case spawn env (Path cmd) argv (files w) of
                Inl e \<Rightarrow> (Some (PathError ''fork/exec'' (Path cmd) e), [], w)
              | Inr p \<Rightarrow>
                  (if status p = 0 then None else Some (ExitError (status p)),
                   writes p,
                   w\<lparr>files := files_after p, started := started w @ [argv]\<rparr>)))"

text \<open>The bytes that reach the writer attached to one stream of the child.\<close>

definition captured :: "stream \<Rightarrow> (stream \<times> string) list \<Rightarrow> string" where
  "captured s chunks = concat (map snd (filter (\<lambda>c. fst c = s) chunks))"

text \<open>\<^verbatim>\<open>cmd.CombinedOutput()\<close>: both streams of the child go to one buffer.\<close>

definition CombinedOutput :: "env \<Rightarrow> Cmd \<Rightarrow> world \<Rightarrow> string \<times> error option \<times> world" where
  "CombinedOutput env cmd w =
     (case Run env cmd w of (err, chunks, w') \<Rightarrow> (concat (map snd chunks), err, w'))"

subsection \<open>Package text/template\<close>

text \<open>
  The template language is a parameter: \<open>Parse name text\<close> is the template called
  \<open>name\<close> parsed from \<open>text\<close>, or the parse error; \<open>Execute t x\<close> is the text that the
  template writes for the data \<open>x\<close>, and the error that stops it, if any.
\<close>

record ('t, 'd) engine =
  Parse :: "string \<Rightarrow> string \<Rightarrow> error + 't"
  Execute :: "'t \<Rightarrow> 'd \<Rightarrow> string \<times> error option"

text \<open>\<^verbatim>\<open>template.ParseFiles(filename)\<close>: the template is named after the base name of the file.\<close>

definition ParseFiles :: "('t, 'd) engine \<Rightarrow> env \<Rightarrow> string \<Rightarrow> world \<Rightarrow> error + 't" where
  "ParseFiles eng env filename w =
     (case ReadFile env filename w of
        Inl e \<Rightarrow> Inl e
      | Inr b \<Rightarrow> Parse eng (Base filename) b)"

text \<open>\<^verbatim>\<open>tpl.Execute(out, x)\<close>: a failed write stops the template.\<close>

definition ExecuteTo :: "('t, 'd) engine \<Rightarrow> env \<Rightarrow> 't \<Rightarrow> File \<Rightarrow> 'd \<Rightarrow> world \<Rightarrow> error option \<times> world" where
  "ExecuteTo eng env tpl out x w =
     (case Execute eng tpl x of
        (text, terr) \<Rightarrow>
          (case Write env out text w of
             (Some e, w') \<Rightarrow> (Some e, w')
           | (None, w') \<Rightarrow> (terr, w')))"

section \<open>internal/build/util.go\<close>



text \<open>\<^verbatim>\<open>VERSION\<close> returns the content of the file \<^verbatim>\<open>VERSION\<close>.\<close>

definition VERSION :: "env \<Rightarrow> world \<Rightarrow> string outcome" where
  "VERSION env w =
     (case ReadFile env ''VERSION'' w of
        Inl err \<Rightarrow> log_Fatal [Err err] w
      | Inr version \<Rightarrow> Returned (TrimSpace version) w)"

text \<open>\<^verbatim>\<open>RunGit\<close> runs a git subcommand and returns its output.\<close>

definition gitPath :: string where
  "gitPath = ''/home/afranzin/software/bin/bin/git''"

definition RunGit :: "env \<Rightarrow> string list \<Rightarrow> world \<Rightarrow> string outcome" where
  "RunGit env args w =
     (let cmd = Command env gitPath args
      in case Run env cmd w of
           (err, chunks, w1) \<Rightarrow>
             (if err = Some ErrNotFound
              then (if \<not> warnedAboutGit w1
                    then Returned []
                           ((log_Print [Str ''Warning: can't find 'git' in PATH''] w1)
                              \<lparr>warnedAboutGit := True\<rparr>)
                    else Returned [] w1)
              else (case err of
                      Some e \<Rightarrow>
                        log_Fatal [Str (Join (Args cmd) '' ''), Str '': '', Err e,
                                   Str [CHR 0x0A], Str (captured ToStderr chunks)] w1
                    | None \<Rightarrow> Returned (TrimSpace (captured ToStdout chunks)) w1)))"

text \<open>
  \<^verbatim>\<open>Render\<close> and \<^verbatim>\<open>RenderString\<close> render a template into \<open>outputFile\<close>;
  \<^verbatim>\<open>template.Must\<close> panics on a parse error.
\<close>

definition render :: "('t, 'd) engine \<Rightarrow> env \<Rightarrow> 't \<Rightarrow> string \<Rightarrow> nat \<Rightarrow> 'd \<Rightarrow> world \<Rightarrow> unit outcome" where
  "render eng env tpl outputFile outputPerm x w =
     (case MkdirAll env (filepath_Dir env outputFile) 493 w of
        Some err \<Rightarrow> log_Fatal [Err err] w
      | None \<Rightarrow>
          (case OpenFile env outputFile [O_CREATE, O_WRONLY, O_EXCL] outputPerm w of
             Inl err \<Rightarrow> log_Fatal [Err err] w
           | Inr (out, w1) \<Rightarrow>
               (case ExecuteTo eng env tpl out x w1 of
                  (Some err, w2) \<Rightarrow> log_Fatal [Err err] w2
                | (None, w2) \<Rightarrow>
                    (case Close env out w2 of
                       (Some err, w3) \<Rightarrow> log_Fatal [Err err] w3
                     | (None, w3) \<Rightarrow> Returned () w3))))"

definition Render :: "('t, 'd) engine \<Rightarrow> env \<Rightarrow> string \<Rightarrow> string \<Rightarrow> nat \<Rightarrow> 'd \<Rightarrow> world \<Rightarrow> unit outcome" where
  "Render eng env templateFile outputFile outputPerm x w =
     (case ParseFiles eng env templateFile w of
        Inl err \<Rightarrow> Panic err w
      | Inr tpl \<Rightarrow> render eng env tpl outputFile outputPerm x w)"

definition RenderString :: "('t, 'd) engine \<Rightarrow> env \<Rightarrow> string \<Rightarrow> string \<Rightarrow> nat \<Rightarrow> 'd \<Rightarrow> world \<Rightarrow> unit outcome" where
  "RenderString eng env templateContent outputFile outputPerm x w =
     (case Parse eng [] templateContent of
        Inl err \<Rightarrow> Panic err w
      | Inr tpl \<Rightarrow> render eng env tpl outputFile outputPerm x w)"

text \<open>
  \<^verbatim>\<open>CopyFile\<close> copies a file. The two \<^verbatim>\<open>defer\<close> statements push a call each; the calls
  run last-in first-out when the function returns, and their results are dropped.
  They do not run when \<^verbatim>\<open>log.Fatal\<close> ends the process.
\<close>

definition run_deferred :: "(world \<Rightarrow> error option \<times> world) list \<Rightarrow> world \<Rightarrow> world" where
  "run_deferred ds w = fold (\<lambda>d w'. snd (d w')) ds w"

definition CopyFile :: "env \<Rightarrow> string \<Rightarrow> string \<Rightarrow> nat \<Rightarrow> world \<Rightarrow> unit outcome" where
  "CopyFile env dst src mode w =
     (case MkdirAll env (filepath_Dir env dst) 493 w of
        Some err \<Rightarrow> log_Fatal [Err err] w
      | None \<Rightarrow>
          (case OpenFile env dst [O_CREATE, O_WRONLY, O_TRUNC] mode w of
             Inl err \<Rightarrow> log_Fatal [Err err] w
           | Inr (destFile, w1) \<Rightarrow>
               (let deferred1 = [Close env destFile]
                in case Open env src w1 of
                     Inl err \<Rightarrow> log_Fatal [Err err] w1
                   | Inr (srcFile, w2) \<Rightarrow>
                       (let deferred2 = Close env srcFile # deferred1
                        in case Copy env destFile srcFile w2 of
                             (Some err, w3) \<Rightarrow> log_Fatal [Err err] w3
                           | (None, w3) \<Rightarrow> Returned () (run_deferred deferred2 w3)))))"

text \<open>
  \<^verbatim>\<open>ExpandPackagesNoVendor\<close> expands a cmd/go import path pattern, skipping vendored
  packages. Both loops are folds over the slice they range over, with the variable
  they assign as the accumulator.
\<close>

definition ExpandPackagesNoVendor :: "env \<Rightarrow> string list \<Rightarrow> world \<Rightarrow> string list outcome" where
  "ExpandPackagesNoVendor env patterns w =
     (let expand = fold (\<lambda>pkg expand. if Contains pkg ''...'' then True else expand) patterns False
      in if expand
         then
           (let args = [''list''] @ patterns;
                cmd = Command env (filepath_Join env [GOROOT env, ''bin'', ''go'']) args
            in case CombinedOutput env cmd w of
                 (out, Some err, w1) \<Rightarrow>
                   log_Fatal [Str ''package listing failed: '', Err err, Str [CHR 0x0A], Str out] w1
               | (out, None, w1) \<Rightarrow>
                   Returned
                     (fold (\<lambda>line packages.
                              if \<not> Contains line ''/vendor/'' then packages @ [TrimSpace line]
                              else packages)
                        (Split out (CHR 0x0A)) [])
                     w1)
         else Returned patterns w)"

section \<open>A concrete machine\<close>

text \<open>
  A machine to run the functions on: the operating system injects no error, the only
  program installed is the \<^verbatim>\<open>go\<close> tool under \<open>GOROOT\<close>, which answers two
  \<^verbatim>\<open>go list\<close> calls, and the version-control client is absent. The paths used with
  it have one element, so their directory is \<^verbatim>\<open>.\<close>.
\<close>

definition listing :: string where
  "listing = ''pkg/a'' @ [CHR 0x0A] @ ''pkg/vendor/b'' @ [CHR 0x0A] @ ''pkg/c''"

definition host :: env where
  "host =
     \<lparr>denied = (\<lambda>op. None),
      io_limit = (\<lambda>path. None),
      findExecutable = (\<lambda>path. Some (Errno ENOENT)),
      searchPATH = (\<lambda>name. None),
      spawn = (\<lambda>path argv fs.
         if argv = [''/usr/local/go/bin/go'', ''list'', ''fmt'', ''pkg/...'']
         then Inr \<lparr>writes = [(ToStdout, listing)], status = 0, files_after = fs\<rparr>
         else if argv = [''/usr/local/go/bin/go'', ''list'', ''./...'']
         then Inr \<lparr>writes = [(ToStdout, ''pkg/a'' @ [CHR 0x0A]),
                             (ToStdout, ''pkg/vendor/b'' @ [CHR 0x0A])],
                   status = 0, files_after = fs\<rparr>
         else Inl (Errno ENOENT)),
      GOROOT = ''/usr/local/go'',
      filepath_Dir = (\<lambda>path. ''.''),
      filepath_Join = (\<lambda>elem. Join elem ''/'')\<rparr>"

definition boot :: world where
  "boot =
     \<lparr>files = [''VERSION'' \<mapsto> [CHR 0x20] @ ''1.5.0 unstable'' @ [CHR 0x0A],
               ''README'' \<mapsto> ''hello''],
      handles = [], stdout = [], stderr = [], logged = [], started = [],
      warnedAboutGit = False, DryRunFlag = False\<rparr>"

text \<open>A template language in which a template is its text and writes its text, then the data.\<close>

definition plain :: "(string, string) engine" where
  "plain = \<lparr>Parse = (\<lambda>name text. Inr text), Execute = (\<lambda>t x. (t @ x, None))\<rparr>"


text \<open>The same machine with a disk on which the file \<^verbatim>\<open>copy\<close> cannot grow beyond two bytes.\<close>

definition full_disk :: env where
  "full_disk = host\<lparr>io_limit := (\<lambda>path. if path = ''copy'' then Some 2 else None)\<rparr>"

section \<open>Properties of the library functions\<close>

lemma HasPrefix_prefix: "HasPrefix s p \<longleftrightarrow> prefix p s"
  by (induction s p rule: HasPrefix.induct) auto

lemma Contains_sublist: "Contains s sub \<longleftrightarrow> sublist sub s"
  by (induction s) (auto simp: HasPrefix_prefix sublist_Cons_right)

lemma width_0: "[] \<notin> set seqs \<Longrightarrow> width seqs s = 0 \<longleftrightarrow> (\<forall>p \<in> set seqs. \<not> prefix p s)"
  unfolding width_def by (induction seqs) (auto simp: HasPrefix_prefix)

lemma width_pos:
  assumes "width seqs s \<noteq> 0"
  shows "\<exists>p \<in> set seqs. width seqs s = length p \<and> s = p @ drop (width seqs s) s"
proof -
  from assms obtain p where f: "find (HasPrefix s) seqs = Some p" and w: "width seqs s = length p"
    by (auto simp: width_def split: option.splits)
  from f have "p \<in> set seqs" "prefix p s"
    by (auto simp: find_Some_iff HasPrefix_prefix)
  then show ?thesis using w by (auto simp: prefix_def)
qed

text \<open>What \<open>trimFront\<close> removes is a run of the given sequences, and it stops where none of them starts.\<close>

lemma trimFront_decomp:
  "\<exists>ps. set ps \<subseteq> set seqs \<and> s = concat ps @ trimFront seqs s"
proof (induction seqs s rule: trimFront.induct)
  case (1 seqs)
  show ?case by (rule exI[of _ "[]"]) simp
next
  case (2 seqs c cs)
  show ?case
  proof (cases "width seqs (c # cs) = 0")
    case True
    show ?thesis by (rule exI[of _ "[]"]) (simp add: True)
  next
    case False
    from width_pos[OF False] obtain p where p: "p \<in> set seqs" "width seqs (c # cs) = length p"
      "c # cs = p @ drop (width seqs (c # cs)) (c # cs)" by blast
    from 2[OF False] obtain ps where ps: "set ps \<subseteq> set seqs"
      "drop (width seqs (c # cs) - 1) cs = concat ps @ trimFront seqs (drop (width seqs (c # cs) - 1) cs)"
      by blast
    have d: "drop (width seqs (c # cs)) (c # cs) = drop (width seqs (c # cs) - 1) cs"
      using False by (cases "width seqs (c # cs)") auto
    have "c # cs = concat (p # ps) @ trimFront seqs (c # cs)"
      using p(3) ps(2) d False by simp
    moreover have "set (p # ps) \<subseteq> set seqs" using p(1) ps(1) by simp
    ultimately show ?thesis by blast
  qed
qed

lemma trimFront_stops:
  "[] \<notin> set seqs \<Longrightarrow> p \<in> set seqs \<Longrightarrow> \<not> prefix p (trimFront seqs s)"
proof (induction seqs s rule: trimFront.induct)
  case (1 seqs)
  then show ?case by auto
next
  case (2 seqs c cs)
  then show ?case by (auto simp: width_0)
qed

lemma whiteSpace_nonempty: "[] \<notin> set whiteSpace" "[] \<notin> set (map rev whiteSpace)"
  by (simp_all add: whiteSpace_def)

lemma TrimSpace_decomp:
  "\<exists>lead trail. set lead \<subseteq> set whiteSpace \<and> set trail \<subseteq> set whiteSpace \<and>
     s = concat lead @ TrimSpace s @ concat trail"
proof -
  obtain ps where ps: "set ps \<subseteq> set whiteSpace" "s = concat ps @ TrimLeftSpace s"
    unfolding TrimLeftSpace_def using trimFront_decomp by blast
  obtain qs where qs: "set qs \<subseteq> set (map rev whiteSpace)"
    "rev (TrimLeftSpace s) = concat qs @ rev (TrimSpace s)"
    unfolding TrimSpace_def TrimRightSpace_def
    using trimFront_decomp[of "map rev whiteSpace" "rev (TrimLeftSpace s)"]
    by auto
  have "TrimLeftSpace s = rev (concat qs @ rev (TrimSpace s))"
    using qs(2) by (metis rev_rev_ident)
  then have t: "TrimLeftSpace s = TrimSpace s @ concat (rev (map rev qs))"
    by (simp add: rev_concat rev_map)
  have "set (rev (map rev qs)) \<subseteq> set whiteSpace"
    using qs(1) by auto
  with ps t show ?thesis by metis
qed

lemma TrimSpace_no_trailing: "p \<in> set whiteSpace \<Longrightarrow> \<not> suffix p (TrimSpace s)"
proof -
  assume "p \<in> set whiteSpace"
  then have "rev p \<in> set (map rev whiteSpace)" by simp
  from trimFront_stops[OF whiteSpace_nonempty(2) this]
  show ?thesis
    unfolding TrimSpace_def TrimRightSpace_def by (simp add: suffix_to_prefix)
qed

lemma TrimRightSpace_prefix: "prefix (TrimRightSpace s) s"
proof -
  obtain qs where "rev s = concat qs @ trimFront (map rev whiteSpace) (rev s)"
    using trimFront_decomp by blast
  then have "s = rev (concat qs @ trimFront (map rev whiteSpace) (rev s))"
    by (metis rev_rev_ident)
  then have "s = TrimRightSpace s @ rev (concat qs)"
    by (simp add: TrimRightSpace_def)
  then show ?thesis by (metis prefixI)
qed

lemma TrimSpace_no_leading: "p \<in> set whiteSpace \<Longrightarrow> \<not> prefix p (TrimSpace s)"
proof
  assume p: "p \<in> set whiteSpace" and "prefix p (TrimSpace s)"
  then have "prefix p (TrimLeftSpace s)"
    unfolding TrimSpace_def using TrimRightSpace_prefix prefix_order.trans by blast
  then show False
    using trimFront_stops[OF whiteSpace_nonempty(1) p] by (simp add: TrimLeftSpace_def)
qed

lemma TrimSpace_sublist: "sublist (TrimSpace s) s"
  using TrimSpace_decomp[of s] by (metis sublist_appendI)

lemma TrimSpace_Nil: "TrimSpace [] = []"
  by (simp add: TrimSpace_def TrimRightSpace_def TrimLeftSpace_def)

lemma TrimSpace_keeps_absent: "\<not> Contains line sub \<Longrightarrow> \<not> Contains (TrimSpace line) sub"
  using TrimSpace_sublist sublist_order.order.trans by (auto simp: Contains_sublist)

lemma splitFrom_nonempty: "splitFrom sep piece s \<noteq> []"
  by (induction s arbitrary: piece) auto

lemma splitFrom_last: "last (splitFrom sep piece (s @ [sep])) = []"
  by (induction s arbitrary: piece) (auto simp: splitFrom_nonempty)

section \<open>Properties of internal/build/util.go\<close>

subsection \<open>The two loops of ExpandPackagesNoVendor\<close>

lemma expand_loop:
  "fold (\<lambda>pkg expand. if Contains pkg sub then True else expand) patterns e
     = (e \<or> (\<exists>pkg \<in> set patterns. Contains pkg sub))"
  by (induction patterns arbitrary: e) auto

lemma packages_loop:
  "fold (\<lambda>line packages. if \<not> Contains line sub then packages @ [TrimSpace line] else packages)
       lines acc
     = acc @ map TrimSpace (filter (\<lambda>line. \<not> Contains line sub) lines)"
  by (induction lines arbitrary: acc) auto

subsection \<open>ExpandPackagesNoVendor\<close>

text \<open>
  Claim C4. For every pattern list in which no pattern contains the wildcard marker
  \<^verbatim>\<open>...\<close>, \<open>ExpandPackagesNoVendor\<close> returns its input unchanged and in the same
  order, and starts no child process: the state it returns in is the state it was
  called in.
\<close>

theorem ExpandPackagesNoVendor_identity:
  assumes "\<forall>pkg \<in> set patterns. \<not> Contains pkg ''...''"
  shows "ExpandPackagesNoVendor env patterns w = Returned patterns w
    \<and> started (final (ExpandPackagesNoVendor env patterns w)) = started w"
  using assms by (simp add: ExpandPackagesNoVendor_def expand_loop)

theorem ExpandPackagesNoVendor_identity_witness:
  "\<not> Contains ''fmt'' ''...'' \<and> \<not> Contains ''pkg/a'' ''...''
    \<and> ExpandPackagesNoVendor host [''fmt'', ''pkg/a''] boot = Returned [''fmt'', ''pkg/a''] boot
    \<and> started (final (ExpandPackagesNoVendor host [''fmt'', ''pkg/a''] boot)) = started boot"
proof -
  have h: "\<forall>pkg \<in> set [''fmt'', ''pkg/a'']. \<not> Contains pkg ''...''" by simp
  show ?thesis using h ExpandPackagesNoVendor_identity [OF h, of host boot] by simp
qed

lemma host_go:
  "Command host (filepath_Join host [GOROOT host, ''bin'', ''go'']) args
     = \<lparr>Path = ''/usr/local/go/bin/go'', Args = ''/usr/local/go/bin/go'' # args, lookPathErr = None\<rparr>"
  by (simp add: host_def Command_def Base_def)

lemma filter_keeps_last:
  "xs \<noteq> [] \<Longrightarrow> P (last xs) \<Longrightarrow> filter P xs \<noteq> [] \<and> last (filter P xs) = last xs"
  by (induction xs) (auto split: if_splits)

text \<open>
  Claim C2. For every pattern list in which at least one pattern contains the wildcard
  marker \<^verbatim>\<open>...\<close>, and whatever the package-listing command writes, the list that
  \<open>ExpandPackagesNoVendor\<close> returns has no line that contains \<^verbatim>\<open>/vendor/\<close>: a line is
  tested before it is trimmed, and trimming keeps a contiguous part of the line.
\<close>

theorem ExpandPackagesNoVendor_no_vendor:
  assumes "\<exists>pkg \<in> set patterns. Contains pkg ''...''"
    and "ExpandPackagesNoVendor env patterns w = Returned packages w'"
  shows "\<forall>line \<in> set packages. \<not> Contains line ''/vendor/''"
proof -
  from assms obtain out where
    "packages = map TrimSpace (filter (\<lambda>line. \<not> Contains line ''/vendor/'') (Split out (CHR 0x0A)))"
    by (auto simp: ExpandPackagesNoVendor_def expand_loop packages_loop log_Fatal_def
        split: prod.splits option.splits)
  then show ?thesis by (auto simp: TrimSpace_keeps_absent)
qed

theorem ExpandPackagesNoVendor_no_vendor_witness:
  "(\<exists>pkg \<in> set [''./...'']. Contains pkg ''...'')
    \<and> ExpandPackagesNoVendor host [''./...''] boot
        = Returned [''pkg/a'', []] (boot\<lparr>started := [[''/usr/local/go/bin/go'', ''list'', ''./...'']]\<rparr>)
    \<and> \<not> Contains ''pkg/a'' ''/vendor/'' \<and> \<not> Contains [] ''/vendor/''"
proof -
  have h1: "\<exists>pkg \<in> set [''./...'']. Contains pkg ''...''" by simp
  have h2: "ExpandPackagesNoVendor host [''./...''] boot
      = Returned [''pkg/a'', []] (boot\<lparr>started := [[''/usr/local/go/bin/go'', ''list'', ''./...'']]\<rparr>)"
    by (simp add: ExpandPackagesNoVendor_def host_go CombinedOutput_def Run_def)
       (simp add: host_def boot_def Split_def TrimSpace_def TrimLeftSpace_def TrimRightSpace_def
          width_def whiteSpace_def)
  from ExpandPackagesNoVendor_no_vendor [OF h1 h2]
  have "\<not> Contains ''pkg/a'' ''/vendor/'' \<and> \<not> Contains [] ''/vendor/''"
    by (simp del: Contains.simps)
  with h1 h2 show ?thesis by blast
qed

text \<open>
  Claim C7. Given the patterns \<^verbatim>\<open>["fmt", "pkg/..."]\<close> and a package-listing command
  whose combined output is \<^verbatim>\<open>pkg/a\npkg/vendor/b\npkg/c\<close>, \<open>ExpandPackagesNoVendor\<close>
  returns exactly \<^verbatim>\<open>["pkg/a", "pkg/c"]\<close>: the order is kept and the vendor line is
  dropped.
\<close>

theorem ExpandPackagesNoVendor_example:
  assumes "CombinedOutput env
      (Command env (filepath_Join env [GOROOT env, ''bin'', ''go'']) [''list'', ''fmt'', ''pkg/...'']) w
      = (''pkg/a'' @ [CHR 0x0A] @ ''pkg/vendor/b'' @ [CHR 0x0A] @ ''pkg/c'', None, w')"
  shows "ExpandPackagesNoVendor env [''fmt'', ''pkg/...''] w = Returned [''pkg/a'', ''pkg/c''] w'"
  using assms
  by (simp add: ExpandPackagesNoVendor_def Split_def TrimSpace_def TrimLeftSpace_def TrimRightSpace_def
          width_def whiteSpace_def)

theorem ExpandPackagesNoVendor_example_witness:
  "CombinedOutput host
      (Command host (filepath_Join host [GOROOT host, ''bin'', ''go'']) [''list'', ''fmt'', ''pkg/...'']) boot
      = (''pkg/a'' @ [CHR 0x0A] @ ''pkg/vendor/b'' @ [CHR 0x0A] @ ''pkg/c'', None,
         boot\<lparr>started := [[''/usr/local/go/bin/go'', ''list'', ''fmt'', ''pkg/...'']]\<rparr>)
   \<and> ExpandPackagesNoVendor host [''fmt'', ''pkg/...''] boot
      = Returned [''pkg/a'', ''pkg/c'']
          (boot\<lparr>started := [[''/usr/local/go/bin/go'', ''list'', ''fmt'', ''pkg/...'']]\<rparr>)"
proof -
  have h: "CombinedOutput host
      (Command host (filepath_Join host [GOROOT host, ''bin'', ''go'']) [''list'', ''fmt'', ''pkg/...'']) boot
      = (''pkg/a'' @ [CHR 0x0A] @ ''pkg/vendor/b'' @ [CHR 0x0A] @ ''pkg/c'', None,
         boot\<lparr>started := [[''/usr/local/go/bin/go'', ''list'', ''fmt'', ''pkg/...'']]\<rparr>)"
    by (simp add: host_go CombinedOutput_def Run_def) (simp add: host_def boot_def listing_def)
  show ?thesis using h ExpandPackagesNoVendor_example [OF h] by blast
qed

text \<open>
  Claim C10. When \<open>ExpandPackagesNoVendor\<close> expands and the combined output of the
  package-listing command ends with a newline, the list it returns ends with an empty
  string: the piece after the last newline is empty, does not contain \<^verbatim>\<open>/vendor/\<close>,
  and is kept, trimmed to the empty string.
\<close>

theorem ExpandPackagesNoVendor_trailing_newline:
  assumes "\<exists>pkg \<in> set patterns. Contains pkg ''...''"
    and "CombinedOutput env
      (Command env (filepath_Join env [GOROOT env, ''bin'', ''go'']) (''list'' # patterns)) w
      = (out @ [CHR 0x0A], None, w')"
  shows "\<exists>packages. ExpandPackagesNoVendor env patterns w = Returned packages w'
    \<and> packages \<noteq> [] \<and> last packages = []"
proof -
  let ?lines = "Split (out @ [CHR 0x0A]) (CHR 0x0A)"
  let ?kept = "filter (\<lambda>line. \<not> Contains line ''/vendor/'') ?lines"
  have r: "ExpandPackagesNoVendor env patterns w = Returned (map TrimSpace ?kept) w'"
    using assms by (simp add: ExpandPackagesNoVendor_def expand_loop packages_loop)
  have l: "?lines \<noteq> []" "last ?lines = []"
    by (simp_all add: Split_def splitFrom_nonempty splitFrom_last)
  have "\<not> Contains (last ?lines) ''/vendor/''" using l(2) by simp
  with l(1) have k: "?kept \<noteq> [] \<and> last ?kept = last ?lines"
    by (rule filter_keeps_last)
  then show ?thesis using r l(2) by (simp add: last_map TrimSpace_Nil)
qed

theorem ExpandPackagesNoVendor_trailing_newline_witness:
  "(\<exists>pkg \<in> set [''./...'']. Contains pkg ''...'')
   \<and> CombinedOutput host
        (Command host (filepath_Join host [GOROOT host, ''bin'', ''go'']) [''list'', ''./...'']) boot
      = ((''pkg/a'' @ [CHR 0x0A] @ ''pkg/vendor/b'') @ [CHR 0x0A], None,
         boot\<lparr>started := [[''/usr/local/go/bin/go'', ''list'', ''./...'']]\<rparr>)
   \<and> (\<exists>packages.
         ExpandPackagesNoVendor host [''./...''] boot
           = Returned packages (boot\<lparr>started := [[''/usr/local/go/bin/go'', ''list'', ''./...'']]\<rparr>)
         \<and> packages \<noteq> [] \<and> last packages = [])"
proof -
  have h1: "\<exists>pkg \<in> set [''./...'']. Contains pkg ''...''" by simp
  have h2: "CombinedOutput host
        (Command host (filepath_Join host [GOROOT host, ''bin'', ''go'']) (''list'' # [''./...''])) boot
      = ((''pkg/a'' @ [CHR 0x0A] @ ''pkg/vendor/b'') @ [CHR 0x0A], None,
         boot\<lparr>started := [[''/usr/local/go/bin/go'', ''list'', ''./...'']]\<rparr>)"
    by (simp add: host_go CombinedOutput_def Run_def) (simp add: host_def boot_def)
  show ?thesis using h1 h2 ExpandPackagesNoVendor_trailing_newline [OF h1 h2] by blast
qed

subsection \<open>MustRun\<close>





subsection \<open>VERSION\<close>

lemma boot_VERSION:
  "ReadFile host ''VERSION'' boot = Inr ([CHR 0x20] @ ''1.5.0 unstable'' @ [CHR 0x0A])"
  by (simp add: ReadFile_def host_def boot_def transferred_def)

lemma boot_VERSION_value: "VERSION host boot = Returned ''1.5.0 unstable'' boot"
  by (simp add: VERSION_def boot_VERSION)
     (simp add: TrimSpace_def TrimLeftSpace_def TrimRightSpace_def width_def whiteSpace_def)

text \<open>
  Claim C5. For every content of the file \<^verbatim>\<open>VERSION\<close>, \<open>VERSION\<close> returns that content
  without its leading and trailing white space: the content is a run of white-space
  characters, then the value returned, then a run of white-space characters, and the
  value returned neither starts nor ends with a white-space character, so that the
  white space inside it is kept. If the file cannot be read, the process ends in
  \<^verbatim>\<open>log.Fatal\<close>.
\<close>

theorem VERSION_trimmed:
  "(ReadFile env ''VERSION'' w = Inl err \<longrightarrow> VERSION env w = Fatal (log_Print [Err err] w))
   \<and> (ReadFile env ''VERSION'' w = Inr content \<longrightarrow>
        files w ''VERSION'' = Some content
        \<and> (\<exists>lead version trail.
              VERSION env w = Returned version w
              \<and> content = concat lead @ version @ concat trail
              \<and> set lead \<subseteq> set whiteSpace \<and> set trail \<subseteq> set whiteSpace
              \<and> (\<forall>p \<in> set whiteSpace. \<not> prefix p version \<and> \<not> suffix p version)))"
proof (intro conjI impI)
  assume "ReadFile env ''VERSION'' w = Inl err"
  then show "VERSION env w = Fatal (log_Print [Err err] w)"
    by (simp add: VERSION_def log_Fatal_def)
next
  assume r: "ReadFile env ''VERSION'' w = Inr content"
  then show "files w ''VERSION'' = Some content"
    by (auto simp: ReadFile_def split: option.splits if_splits)
next
  assume r: "ReadFile env ''VERSION'' w = Inr content"
  then have v: "VERSION env w = Returned (TrimSpace content) w"
    by (simp add: VERSION_def)
  obtain lead trail where "set lead \<subseteq> set whiteSpace" "set trail \<subseteq> set whiteSpace"
    "content = concat lead @ TrimSpace content @ concat trail"
    using TrimSpace_decomp by blast
  with v show "\<exists>lead version trail.
              VERSION env w = Returned version w
              \<and> content = concat lead @ version @ concat trail
              \<and> set lead \<subseteq> set whiteSpace \<and> set trail \<subseteq> set whiteSpace
              \<and> (\<forall>p \<in> set whiteSpace. \<not> prefix p version \<and> \<not> suffix p version)"
    using TrimSpace_no_leading TrimSpace_no_trailing by blast
qed

theorem VERSION_trimmed_witness:
  "ReadFile host ''VERSION'' boot = Inr ([CHR 0x20] @ ''1.5.0 unstable'' @ [CHR 0x0A])
   \<and> files boot ''VERSION'' = Some ([CHR 0x20] @ ''1.5.0 unstable'' @ [CHR 0x0A])
   \<and> VERSION host boot = Returned ''1.5.0 unstable'' boot
   \<and> (\<exists>lead version trail.
              VERSION host boot = Returned version boot
              \<and> [CHR 0x20] @ ''1.5.0 unstable'' @ [CHR 0x0A] = concat lead @ version @ concat trail
              \<and> set lead \<subseteq> set whiteSpace \<and> set trail \<subseteq> set whiteSpace
              \<and> (\<forall>p \<in> set whiteSpace. \<not> prefix p version \<and> \<not> suffix p version))"
  using VERSION_trimmed [of host boot ErrInvalid "[CHR 0x20] @ ''1.5.0 unstable'' @ [CHR 0x0A]"]
    boot_VERSION boot_VERSION_value by blast

subsection \<open>RunGit\<close>

lemma Base_gitPath: "Base gitPath = ''git''"
  by (simp add: Base_def gitPath_def)

lemma Command_gitPath:
  "Command env gitPath args = \<lparr>Path = gitPath, Args = gitPath # args, lookPathErr = None\<rparr>"
proof -
  have "Base gitPath \<noteq> gitPath" by (simp add: Base_gitPath) (simp add: gitPath_def)
  then show ?thesis by (simp add: Command_def)
qed

lemma LookPath_error: "LookPath env file = Inl e \<Longrightarrow> e \<noteq> ErrNotFound"
  by (auto simp: LookPath_def split: if_splits option.splits)

text \<open>
  No command made by \<open>Command\<close> makes \<open>Run\<close> return the value \<open>ErrNotFound\<close> itself:
  a failed search of \<^verbatim>\<open>$PATH\<close> gives an \<open>ExecError\<close> that wraps it, a failed start a
  \<open>PathError\<close>. The first branch of \<open>RunGit\<close> is never taken.
\<close>

lemma Run_never_ErrNotFound: "fst (Run env (Command env name arg) w) \<noteq> Some ErrNotFound"
  by (auto simp: Run_def Command_def Let_def dest: LookPath_error split: sum.splits option.splits)

text \<open>
  Claim C1 says that, for every argument list, when the version-control client is not
  found, \<open>RunGit\<close> logs a warning on the first such call only and returns the empty
  string instead of ending the process. The code does not do this: the path of the
  client contains a separator, so \<open>Command\<close> does not search for it and \<open>Run\<close>
  returns the \<open>PathError\<close> of the failed start, which is not equal to \<open>ErrNotFound\<close>;
  \<open>RunGit\<close> then ends the process in \<^verbatim>\<open>log.Fatal\<close>, with no warning and no result.
\<close>

theorem RunGit_client_not_found:
  assumes "spawn env gitPath (gitPath # args) (files w) = Inl e"
  shows "RunGit env args w
    = Fatal (log_Print [Str (Join (gitPath # args) '' ''), Str '': '',
                        Err (PathError ''fork/exec'' gitPath e), Str [CHR 0x0A], Str []] w)"
  using assms
  by (simp add: RunGit_def Command_gitPath Run_def log_Fatal_def captured_def)

theorem RunGit_client_not_found_witness:
  "spawn host gitPath (gitPath # [''rev-parse'', ''HEAD'']) (files boot) = Inl (Errno ENOENT)
   \<and> RunGit host [''rev-parse'', ''HEAD''] boot
     = Fatal (boot\<lparr>logged :=
         [[Str ''/home/afranzin/software/bin/bin/git rev-parse HEAD'', Str '': '',
           Err (PathError ''fork/exec'' ''/home/afranzin/software/bin/bin/git'' (Errno ENOENT)),
           Str [CHR 0x0A], Str []]]\<rparr>)"
proof -
  have h: "spawn host gitPath (gitPath # [''rev-parse'', ''HEAD'']) (files boot) = Inl (Errno ENOENT)"
    by (simp add: host_def)
  have "logged boot = []" by (simp add: boot_def)
  then show ?thesis
    using h RunGit_client_not_found [OF h] by (simp add: log_Print_def gitPath_def)
qed

subsection \<open>Render and RenderString\<close>

lemma OpenFile_exclusive:
  "files w name = Some old \<Longrightarrow>
     \<exists>e. OpenFile env name [O_CREATE, O_WRONLY, O_EXCL] perm w = Inl e"
  by (simp add: OpenFile_def split: option.splits)

lemma files_log_Print: "files (log_Print v w) = files w"
  by (simp add: log_Print_def)

lemma render_existing:
  assumes "files w outputFile = Some old"
  shows "\<not> returns (render eng env tpl outputFile outputPerm x w)
    \<and> files (final (render eng env tpl outputFile outputPerm x w)) = files w"
proof (cases "MkdirAll env (filepath_Dir env outputFile) 493 w")
  case (Some err)
  then show ?thesis by (simp add: render_def log_Fatal_def files_log_Print)
next
  case None
  from OpenFile_exclusive[OF assms] obtain e
    where "OpenFile env outputFile [O_CREATE, O_WRONLY, O_EXCL] outputPerm w = Inl e" by blast
  with None show ?thesis by (simp add: render_def log_Fatal_def files_log_Print)
qed

text \<open>
  Claim C3. For \<open>Render\<close> (template from a file) and for \<open>RenderString\<close> (template
  from a string), if the output file exists already, the call does not return (it ends
  the process, in \<^verbatim>\<open>log.Fatal\<close>, or in the panic of \<^verbatim>\<open>template.Must\<close> when the template does
  not parse) and no file is changed: the existing file is not overwritten.
\<close>

theorem Render_exclusive:
  assumes "files w outputFile = Some old"
  shows "\<not> returns (Render eng env templateFile outputFile outputPerm x w)
    \<and> files (final (Render eng env templateFile outputFile outputPerm x w)) = files w
    \<and> \<not> returns (RenderString eng env templateContent outputFile outputPerm x w)
    \<and> files (final (RenderString eng env templateContent outputFile outputPerm x w)) = files w"
  using render_existing [OF assms, of eng env _ outputPerm x]
  by (simp add: Render_def RenderString_def split: sum.splits)

theorem Render_exclusive_witness:
  "files boot ''VERSION'' = Some ([CHR 0x20] @ ''1.5.0 unstable'' @ [CHR 0x0A])
    \<and> \<not> returns (Render plain host ''README'' ''VERSION'' 420 ''x'' boot)
    \<and> files (final (Render plain host ''README'' ''VERSION'' 420 ''x'' boot)) = files boot
    \<and> \<not> returns (RenderString plain host ''hello'' ''VERSION'' 420 ''x'' boot)
    \<and> files (final (RenderString plain host ''hello'' ''VERSION'' 420 ''x'' boot)) = files boot"
proof -
  have h: "files boot ''VERSION'' = Some ([CHR 0x20] @ ''1.5.0 unstable'' @ [CHR 0x0A])"
    by (simp add: boot_def)
  show ?thesis
    using h Render_exclusive [OF h, of plain host "''README''" 420 "''x''" "''hello''"] by blast
qed

subsection \<open>CopyFile\<close>

lemma OpenFile_opens:
  "OpenFile env name flag perm w = Inr (f, w') \<Longrightarrow>
     f = (fresh (handles w), name) \<and> handles w' = f # handles w"
  by (auto simp: OpenFile_def Let_def split: option.splits if_splits)

lemma Write_handles: "Write env f b w = (r, w') \<Longrightarrow> handles w' = handles w"
  by (auto simp: Write_def Let_def split: if_splits)

lemma Copy_handles: "Copy env d s w = (r, w') \<Longrightarrow> handles w' = handles w"
  by (auto simp: Copy_def Let_def split: if_splits prod.splits option.splits dest: Write_handles)

lemma Close_first: "handles w = f # hs \<Longrightarrow> handles (snd (Close env f w)) = hs"
  by (simp add: Close_def)

text \<open>
  A run in which the source is missing: the process ends in \<^verbatim>\<open>log.Fatal\<close> while the
  destination, which \<open>CopyFile\<close> opened, is still open.
\<close>

theorem CopyFile_fatal_keeps_handle:
  "\<not> returns (CopyFile host ''copy'' ''missing'' 420 boot)
    \<and> handles boot = []
    \<and> handles (final (CopyFile host ''copy'' ''missing'' 420 boot)) = [(0, ''copy'')]"
  by (simp add: CopyFile_def MkdirAll_def OpenFile_def Open_def log_Fatal_def log_Print_def
        Let_def host_def boot_def)

text \<open>
  Claim C8, amended. When \<open>CopyFile\<close> returns, the two handles it opened are closed,
  by the deferred calls: the open files are those of the call. On every error path the
  process ends in \<^verbatim>\<open>log.Fatal\<close>, no deferred call runs, and exactly the handles opened
  before the failure are still open at that point: none when the directory or the
  destination cannot be made, the destination when the source cannot be opened, the
  source and the destination when the copy fails.
\<close>

theorem CopyFile_handles:
  "(returns (CopyFile env dst src mode w) \<longrightarrow>
       handles (final (CopyFile env dst src mode w)) = handles w)
   \<and> (MkdirAll env (filepath_Dir env dst) 493 w = Some e0 \<longrightarrow>
       CopyFile env dst src mode w = Fatal (log_Print [Err e0] w)
       \<and> handles (final (CopyFile env dst src mode w)) = handles w)
   \<and> (MkdirAll env (filepath_Dir env dst) 493 w = None
       \<and> OpenFile env dst [O_CREATE, O_WRONLY, O_TRUNC] mode w = Inl e1 \<longrightarrow>
       CopyFile env dst src mode w = Fatal (log_Print [Err e1] w)
       \<and> handles (final (CopyFile env dst src mode w)) = handles w)
   \<and> (MkdirAll env (filepath_Dir env dst) 493 w = None
       \<and> OpenFile env dst [O_CREATE, O_WRONLY, O_TRUNC] mode w = Inr (destFile, w1)
       \<and> Open env src w1 = Inl e2 \<longrightarrow>
       CopyFile env dst src mode w = Fatal (log_Print [Err e2] w1)
       \<and> destFile = (fresh (handles w), dst)
       \<and> handles (final (CopyFile env dst src mode w)) = destFile # handles w)
   \<and> (MkdirAll env (filepath_Dir env dst) 493 w = None
       \<and> OpenFile env dst [O_CREATE, O_WRONLY, O_TRUNC] mode w = Inr (destFile, w1)
       \<and> Open env src w1 = Inr (srcFile, w2)
       \<and> Copy env destFile srcFile w2 = (Some e3, w3) \<longrightarrow>
       CopyFile env dst src mode w = Fatal (log_Print [Err e3] w3)
       \<and> destFile = (fresh (handles w), dst)
       \<and> srcFile = (fresh (destFile # handles w), src)
       \<and> handles (final (CopyFile env dst src mode w)) = srcFile # destFile # handles w)
   \<and> (MkdirAll env (filepath_Dir env dst) 493 w = None
       \<and> OpenFile env dst [O_CREATE, O_WRONLY, O_TRUNC] mode w = Inr (destFile, w1)
       \<and> Open env src w1 = Inr (srcFile, w2)
       \<and> Copy env destFile srcFile w2 = (None, w3) \<longrightarrow>
       returns (CopyFile env dst src mode w)
       \<and> handles w3 = srcFile # destFile # handles w
       \<and> handles (final (CopyFile env dst src mode w)) = handles w)"
proof -
  have mk: "CopyFile env dst src mode w = Fatal (log_Print [Err e0] w)
       \<and> handles (final (CopyFile env dst src mode w)) = handles w"
    if "MkdirAll env (filepath_Dir env dst) 493 w = Some e0"
    using that by (simp add: CopyFile_def log_Fatal_def log_Print_def)
  have od: "CopyFile env dst src mode w = Fatal (log_Print [Err e1] w)
       \<and> handles (final (CopyFile env dst src mode w)) = handles w"
    if "MkdirAll env (filepath_Dir env dst) 493 w = None"
      "OpenFile env dst [O_CREATE, O_WRONLY, O_TRUNC] mode w = Inl e1"
    using that by (simp add: CopyFile_def log_Fatal_def log_Print_def)
  have os: "CopyFile env dst src mode w = Fatal (log_Print [Err e2] w1)
       \<and> destFile = (fresh (handles w), dst)
       \<and> handles (final (CopyFile env dst src mode w)) = destFile # handles w"
    if "MkdirAll env (filepath_Dir env dst) 493 w = None"
      "OpenFile env dst [O_CREATE, O_WRONLY, O_TRUNC] mode w = Inr (destFile, w1)"
      "Open env src w1 = Inl e2"
    using that OpenFile_opens[OF that(2)]
    by (simp add: CopyFile_def log_Fatal_def log_Print_def)
  have cp: "handles w3 = srcFile # destFile # handles w
       \<and> destFile = (fresh (handles w), dst)
       \<and> srcFile = (fresh (destFile # handles w), src)"
    if "OpenFile env dst [O_CREATE, O_WRONLY, O_TRUNC] mode w = Inr (destFile, w1)"
      "Open env src w1 = Inr (srcFile, w2)"
      "Copy env destFile srcFile w2 = (r, w3)"
    for r
    using OpenFile_opens[OF that(1)] OpenFile_opens[OF that(2)[unfolded Open_def]]
      Copy_handles[OF that(3)]
    by simp
  have cf: "CopyFile env dst src mode w = Fatal (log_Print [Err e3] w3)
       \<and> destFile = (fresh (handles w), dst)
       \<and> srcFile = (fresh (destFile # handles w), src)
       \<and> handles (final (CopyFile env dst src mode w)) = srcFile # destFile # handles w"
    if "MkdirAll env (filepath_Dir env dst) 493 w = None"
      "OpenFile env dst [O_CREATE, O_WRONLY, O_TRUNC] mode w = Inr (destFile, w1)"
      "Open env src w1 = Inr (srcFile, w2)"
      "Copy env destFile srcFile w2 = (Some e3, w3)"
    using that cp[OF that(2) that(3) that(4)]
    by (simp add: CopyFile_def log_Fatal_def log_Print_def)
  have ok: "returns (CopyFile env dst src mode w)
       \<and> handles w3 = srcFile # destFile # handles w
       \<and> handles (final (CopyFile env dst src mode w)) = handles w"
    if "MkdirAll env (filepath_Dir env dst) 493 w = None"
      "OpenFile env dst [O_CREATE, O_WRONLY, O_TRUNC] mode w = Inr (destFile, w1)"
      "Open env src w1 = Inr (srcFile, w2)"
      "Copy env destFile srcFile w2 = (None, w3)"
  proof -
    from cp[OF that(2) that(3) that(4)] have h3: "handles w3 = srcFile # destFile # handles w"
      by simp
    then have "handles (snd (Close env srcFile w3)) = destFile # handles w"
      by (rule Close_first)
    then have "handles (snd (Close env destFile (snd (Close env srcFile w3)))) = handles w"
      by (rule Close_first)
    with that h3 show ?thesis by (simp add: CopyFile_def run_deferred_def)
  qed
  have ret: "handles (final (CopyFile env dst src mode w)) = handles w"
    if r: "returns (CopyFile env dst src mode w)"
  proof (cases "MkdirAll env (filepath_Dir env dst) 493 w")
    case (Some err)
    with r show ?thesis by (simp add: CopyFile_def log_Fatal_def)
  next
    case None
    show ?thesis
    proof (cases "OpenFile env dst [O_CREATE, O_WRONLY, O_TRUNC] mode w")
      case (Inl err)
      with None r show ?thesis by (simp add: CopyFile_def log_Fatal_def)
    next
      case (Inr p)
      obtain d v1 where p: "p = (d, v1)" by (cases p)
      show ?thesis
      proof (cases "Open env src v1")
        case (Inl err)
        with None Inr p r show ?thesis by (simp add: CopyFile_def log_Fatal_def)
      next
        case (Inr q)
        note o2 = Inr
        obtain sf v2 where q: "q = (sf, v2)" by (cases q)
        obtain res v3 where c: "Copy env d sf v2 = (res, v3)" by (cases "Copy env d sf v2")
        show ?thesis
        proof (cases res)
          case (Some err)
          with None \<open>OpenFile env dst [O_CREATE, O_WRONLY, O_TRUNC] mode w = Inr p\<close> p o2 q c r
          show ?thesis by (simp add: CopyFile_def log_Fatal_def)
        next
          case None2: None
          have h3: "handles v3 = sf # d # handles w"
            using OpenFile_opens[of env dst _ mode w d v1] OpenFile_opens[of env src _ 0 v1 sf v2]
              Copy_handles[OF c] \<open>OpenFile env dst [O_CREATE, O_WRONLY, O_TRUNC] mode w = Inr p\<close> p o2 q
            by (simp add: Open_def)
          then have "handles (snd (Close env sf v3)) = d # handles w" by (rule Close_first)
          then have "handles (snd (Close env d (snd (Close env sf v3)))) = handles w"
            by (rule Close_first)
          with None \<open>OpenFile env dst [O_CREATE, O_WRONLY, O_TRUNC] mode w = Inr p\<close> p o2 q c None2
          show ?thesis by (simp add: CopyFile_def run_deferred_def)
        qed
      qed
    qed
  qed
  show ?thesis
    using ret mk od os cf ok by blast
qed

theorem CopyFile_handles_witness:
  "returns (CopyFile host ''copy'' ''README'' 420 boot)
    \<and> handles (final (CopyFile host ''copy'' ''README'' 420 boot)) = handles boot
    \<and> files (final (CopyFile host ''copy'' ''README'' 420 boot)) ''copy'' = Some ''hello''
    \<and> Open host ''absent''
          (boot\<lparr>files := (files boot)(''backup'' \<mapsto> []), handles := [(0, ''backup'')]\<rparr>)
        = Inl (PathError ''open'' ''absent'' (Errno ENOENT))
    \<and> \<not> returns (CopyFile host ''backup'' ''absent'' 420 boot)
    \<and> handles (final (CopyFile host ''backup'' ''absent'' 420 boot)) = [(0, ''backup'')]
    \<and> Copy full_disk (0, ''copy'') (1, ''README'')
          (boot\<lparr>files := (files boot)(''copy'' \<mapsto> []), handles := [(1, ''README''), (0, ''copy'')]\<rparr>)
        = (Some (PathError ''write'' ''copy'' (Errno ENOSPC)),
           boot\<lparr>files := (files boot)(''copy'' \<mapsto> ''he''), handles := [(1, ''README''), (0, ''copy'')]\<rparr>)
    \<and> \<not> returns (CopyFile full_disk ''copy'' ''README'' 420 boot)
    \<and> handles (final (CopyFile full_disk ''copy'' ''README'' 420 boot))
        = [(1, ''README''), (0, ''copy'')]"
proof -
  have hb: "handles boot = []" by (simp add: boot_def)
  \<comment> \<open>the copy succeeds\<close>
  have c: "CopyFile host ''copy'' ''README'' 420 boot
      = Returned () (boot\<lparr>files := (files boot)(''copy'' \<mapsto> ''hello'')\<rparr>)"
    by (simp add: CopyFile_def MkdirAll_def OpenFile_def Open_def Copy_def Write_def Close_def
        run_deferred_def transferred_def contents_def Let_def host_def boot_def)
  then have r: "returns (CopyFile host ''copy'' ''README'' 420 boot)" by simp
  have p1: "handles (final (CopyFile host ''copy'' ''README'' 420 boot)) = handles boot"
    using r CopyFile_handles [of host "''copy''" "''README''" 420 boot] by blast
  \<comment> \<open>the source is missing\<close>
  have m1: "MkdirAll host (filepath_Dir host ''backup'') 493 boot = None"
    by (simp add: MkdirAll_def host_def boot_def)
  have o1: "OpenFile host ''backup'' [O_CREATE, O_WRONLY, O_TRUNC] 420 boot
      = Inr ((0, ''backup''),
             boot\<lparr>files := (files boot)(''backup'' \<mapsto> []), handles := [(0, ''backup'')]\<rparr>)"
    by (simp add: OpenFile_def Let_def host_def boot_def)
  have s1: "Open host ''absent''
          (boot\<lparr>files := (files boot)(''backup'' \<mapsto> []), handles := [(0, ''backup'')]\<rparr>)
        = Inl (PathError ''open'' ''absent'' (Errno ENOENT))"
    by (simp add: Open_def OpenFile_def Let_def host_def boot_def)
  have p2: "\<not> returns (CopyFile host ''backup'' ''absent'' 420 boot)
      \<and> handles (final (CopyFile host ''backup'' ''absent'' 420 boot)) = [(0, ''backup'')]"
    using m1 o1 s1 hb
      CopyFile_handles [where env = host and dst = "''backup''" and src = "''absent''"
        and mode = 420 and w = boot and destFile = "(0, ''backup'')"
        and ?w1.0 = "boot\<lparr>files := (files boot)(''backup'' \<mapsto> []), handles := [(0, ''backup'')]\<rparr>"
        and ?e2.0 = "PathError ''open'' ''absent'' (Errno ENOENT)"]
    by (simp add: log_Print_def)
  \<comment> \<open>the disk is full\<close>
  have m2: "MkdirAll full_disk (filepath_Dir full_disk ''copy'') 493 boot = None"
    by (simp add: MkdirAll_def full_disk_def host_def boot_def)
  have o2: "OpenFile full_disk ''copy'' [O_CREATE, O_WRONLY, O_TRUNC] 420 boot
      = Inr ((0, ''copy''),
             boot\<lparr>files := (files boot)(''copy'' \<mapsto> []), handles := [(0, ''copy'')]\<rparr>)"
    by (simp add: OpenFile_def Let_def full_disk_def host_def boot_def)
  have s2: "Open full_disk ''README''
          (boot\<lparr>files := (files boot)(''copy'' \<mapsto> []), handles := [(0, ''copy'')]\<rparr>)
        = Inr ((1, ''README''),
               boot\<lparr>files := (files boot)(''copy'' \<mapsto> []), handles := [(1, ''README''), (0, ''copy'')]\<rparr>)"
    by (simp add: Open_def OpenFile_def Let_def full_disk_def host_def boot_def)
  have c2: "Copy full_disk (0, ''copy'') (1, ''README'')
          (boot\<lparr>files := (files boot)(''copy'' \<mapsto> []), handles := [(1, ''README''), (0, ''copy'')]\<rparr>)
        = (Some (PathError ''write'' ''copy'' (Errno ENOSPC)),
           boot\<lparr>files := (files boot)(''copy'' \<mapsto> ''he''), handles := [(1, ''README''), (0, ''copy'')]\<rparr>)"
    by (simp add: Copy_def Write_def transferred_def contents_def Let_def full_disk_def host_def boot_def)
  have p3: "\<not> returns (CopyFile full_disk ''copy'' ''README'' 420 boot)
      \<and> handles (final (CopyFile full_disk ''copy'' ''README'' 420 boot))
          = [(1, ''README''), (0, ''copy'')]"
    using m2 o2 s2 c2 hb
      CopyFile_handles [where env = full_disk and dst = "''copy''" and src = "''README''"
        and mode = 420 and w = boot and destFile = "(0, ''copy'')"
        and ?w1.0 = "boot\<lparr>files := (files boot)(''copy'' \<mapsto> []), handles := [(0, ''copy'')]\<rparr>"
        and srcFile = "(1, ''README'')"
        and ?w2.0 = "boot\<lparr>files := (files boot)(''copy'' \<mapsto> []),
                          handles := [(1, ''README''), (0, ''copy'')]\<rparr>"
        and ?e3.0 = "PathError ''write'' ''copy'' (Errno ENOSPC)"
        and ?w3.0 = "boot\<lparr>files := (files boot)(''copy'' \<mapsto> ''he''),
                          handles := [(1, ''README''), (0, ''copy'')]\<rparr>"]
    by (simp add: log_Print_def)
  show ?thesis using r p1 c s1 p2 c2 p3 by simp
qed

text \<open>
  Claim C9. \<open>CopyFile\<close> creates or truncates the destination before it tries to open
  the source: when the directory and the destination are made and opening the source
  fails, the process ends in \<^verbatim>\<open>log.Fatal\<close> in the state in which the destination is an
  empty file, whatever it held before.
\<close>

theorem CopyFile_truncates_before_source:
  assumes "MkdirAll env (filepath_Dir env dst) 493 w = None"
    and "OpenFile env dst [O_CREATE, O_WRONLY, O_TRUNC] mode w = Inr (destFile, w1)"
    and "Open env src w1 = Inl err"
  shows "CopyFile env dst src mode w = Fatal (log_Print [Err err] w1)
    \<and> files w1 = (files w)(dst \<mapsto> [])
    \<and> files (final (CopyFile env dst src mode w)) dst = Some []"
proof -
  have f: "files w1 = (files w)(dst \<mapsto> [])"
    using assms(2) by (auto simp: OpenFile_def Let_def split: option.splits if_splits)
  have c: "CopyFile env dst src mode w = Fatal (log_Print [Err err] w1)"
    using assms by (simp add: CopyFile_def log_Fatal_def)
  show ?thesis using f c by (simp add: files_log_Print)
qed

theorem CopyFile_truncates_before_source_witness:
  "MkdirAll host (filepath_Dir host ''README'') 493 boot = None
    \<and> OpenFile host ''README'' [O_CREATE, O_WRONLY, O_TRUNC] 420 boot
        = Inr ((0, ''README''),
               boot\<lparr>files := (files boot)(''README'' \<mapsto> []), handles := [(0, ''README'')]\<rparr>)
    \<and> Open host ''missing''
          (boot\<lparr>files := (files boot)(''README'' \<mapsto> []), handles := [(0, ''README'')]\<rparr>)
        = Inl (PathError ''open'' ''missing'' (Errno ENOENT))
    \<and> files boot ''README'' = Some ''hello''
    \<and> \<not> returns (CopyFile host ''README'' ''missing'' 420 boot)
    \<and> files (final (CopyFile host ''README'' ''missing'' 420 boot)) ''README'' = Some []"
proof -
  have h1: "MkdirAll host (filepath_Dir host ''README'') 493 boot = None"
    by (simp add: MkdirAll_def host_def boot_def)
  have h2: "OpenFile host ''README'' [O_CREATE, O_WRONLY, O_TRUNC] 420 boot
        = Inr ((0, ''README''),
               boot\<lparr>files := (files boot)(''README'' \<mapsto> []), handles := [(0, ''README'')]\<rparr>)"
    by (simp add: OpenFile_def Let_def host_def boot_def)
  have h3: "Open host ''missing''
          (boot\<lparr>files := (files boot)(''README'' \<mapsto> []), handles := [(0, ''README'')]\<rparr>)
        = Inl (PathError ''open'' ''missing'' (Errno ENOENT))"
    by (simp add: Open_def OpenFile_def Let_def host_def boot_def)
  have h4: "files boot ''README'' = Some ''hello''" by (simp add: boot_def)
  show ?thesis
    using h1 h2 h3 h4 CopyFile_truncates_before_source [OF h1 h2 h3]
    by (simp add: files_log_Print)
qed

end
